theory Spec2Isabelle
  imports Complex_Main "HOL-Library.Finite_Map"
begin

section \<open>Pages of related records and cursor advancement (useInfiniteGetMany)\<close>

text \<open>
  A page as the query function of \<open>useInfiniteGetMany\<close> stores it: the records, the
  optional \<open>total\<close>, the cursor \<open>pageParam\<close> the page was fetched with, and the optional
  \<open>pageInfo\<close>. Page numbers, totals and \<open>perPage\<close> are JavaScript numbers holding
  integers; they are modelled as \<open>int\<close>. An optional property is an \<open>option\<close>
  (\<open>None\<close> is \<open>undefined\<close>). The source's \<open>total\<close> and \<open>meta\<close> are the fields
  \<open>total_page\<close> and \<open>meta_page\<close> here, since \<open>total\<close> is a constant of HOL.
\<close>

record PageInfo =
  hasNextPage :: "bool option"
  hasPreviousPage :: "bool option"

record ('r, 'm) PageResult =
  data :: "'r list"
  total_page :: "int option"
  pageParam :: int
  pageInfo :: "PageInfo option"
  meta_page :: "'m option"

text \<open>
  The source computes on JavaScript numbers, which are IEEE doubles. On the safe integers
  (\<open>Number.isSafeInteger\<close>: at most \<open>2^53 - 1\<close> in absolute value) the sum \<open>c + 1\<close>, the
  difference \<open>c - 1\<close> and the comparison with \<open>Math.ceil(total / perPage)\<close> of doubles are
  the exact ones of \<open>int\<close> below; beyond them a double rounds. The theorems about cursors
  are stated for safe integers.
\<close>

definition safe_integer :: "int \<Rightarrow> bool" where
  "safe_integer n = (\<bar>n\<bar> \<le> 2 ^ 53 - 1)"

text \<open>The truthiness of an optional boolean: \<open>undefined\<close> and \<open>false\<close> are falsy.\<close>

definition truthy :: "bool option \<Rightarrow> bool" where
  "truthy b = (b = Some True)"

text \<open>
  What \<open>Math.ceil(a / b)\<close> evaluates to on integers: a finite number, an infinity or
  \<open>NaN\<close>. JavaScript does not raise on a division by zero: \<open>a / 0\<close> is \<open>Infinity\<close> for
  \<open>a > 0\<close>, \<open>-Infinity\<close> for \<open>a < 0\<close> and \<open>NaN\<close> for \<open>a = 0\<close>.
\<close>

datatype jsnum = Finite rat | PosInfinity | NegInfinity | NaN

definition js_div :: "int \<Rightarrow> int \<Rightarrow> jsnum" where
  "js_div a b =
     (if b = 0 then (if 0 < a then PosInfinity else if a < 0 then NegInfinity else NaN)
      else Finite (rat_of_int a / rat_of_int b))"

fun Math_ceil :: "jsnum \<Rightarrow> jsnum" where
  "Math_ceil (Finite q) = Finite (rat_of_int \<lceil>q\<rceil>)"
| "Math_ceil PosInfinity = PosInfinity"
| "Math_ceil NegInfinity = NegInfinity"
| "Math_ceil NaN = NaN"

text \<open>\<open>c < x\<close> for a finite integer \<open>c\<close>: every comparison with \<open>NaN\<close> is false.\<close>

fun js_less :: "int \<Rightarrow> jsnum \<Rightarrow> bool" where
  "js_less c (Finite q) = (rat_of_int c < q)"
| "js_less c PosInfinity = True"
| "js_less c NegInfinity = False"
| "js_less c NaN = False"

text \<open>\<open>total || 0\<close>: an absent total, and the total \<open>0\<close>, give \<open>0\<close>.\<close>

definition total_or_0 :: "int option \<Rightarrow> int" where
  "total_or_0 t = (case t of None \<Rightarrow> 0 | Some n \<Rightarrow> if n = 0 then 0 else n)"

text \<open>
  \<open>getNextPageParam\<close> and \<open>getPreviousPageParam\<close> of the options given to
  \<open>useInfiniteQuery\<close>; \<open>perPage\<close> is \<open>pagination.perPage\<close>. The result \<open>None\<close> is
  \<open>undefined\<close>: no further page in that direction.
\<close>

definition getNextPageParam :: "int \<Rightarrow> ('r, 'm) PageResult \<Rightarrow> int option" where
  "getNextPageParam perPage lastLoadedPage =
     (case pageInfo lastLoadedPage of
        Some info \<Rightarrow>
          (if truthy (hasNextPage info) then Some (pageParam lastLoadedPage + 1) else None)
      | None \<Rightarrow>
          (let totalPages = Math_ceil (js_div (total_or_0 (total_page lastLoadedPage)) perPage)
           in if js_less (pageParam lastLoadedPage) totalPages
              then Some (pageParam lastLoadedPage + 1) else None))"

definition getPreviousPageParam :: "('r, 'm) PageResult \<Rightarrow> int option" where
  "getPreviousPageParam lastLoadedPage =
     (case pageInfo lastLoadedPage of
        Some info \<Rightarrow>
          (if truthy (hasPreviousPage info) then Some (pageParam lastLoadedPage - 1) else None)
      | None \<Rightarrow>
          (if pageParam lastLoadedPage = 1 then None else Some (pageParam lastLoadedPage - 1)))"

section \<open>The query result, the by-id cache and the effects of useInfiniteGetMany\<close>

text \<open>
  A fetch error is a plain string or an object with an optional \<open>message\<close>. React
  compares the entries of a dependency array with \<open>Object.is\<close>: strings by their
  contents, objects by reference. An error object therefore carries a reference number,
  and two objects are the same dependency when number and message agree.
\<close>

datatype error_value = Message string | Structured nat "string option"

datatype query_status = StatusPending | StatusError | StatusSuccess

record ('r, 'm) InfiniteData =
  pages :: "('r, 'm) PageResult list"
  pageParams :: "int list"

text \<open>
  The fields of the value of \<open>useInfiniteQuery\<close> that the hook reads: \<open>result.data\<close>,
  \<open>result.error\<close> (\<open>None\<close> is \<open>null\<close>), \<open>result.isFetching\<close> and \<open>result.status\<close>.
\<close>

record ('r, 'm) QueryResult =
  result_data :: "('r, 'm) InfiniteData option"
  result_error :: "error_value option"
  result_isFetching :: bool
  result_status :: query_status

definition isPending :: "('r, 'm) QueryResult \<Rightarrow> bool" where
  "isPending result = (result_status result = StatusPending)"

text \<open>
  A record has at least an identifier; the rest of its fields are the record's extension.
  The field \<open>id\<close> of the source is \<open>record_id\<close> here (\<open>id\<close> is the identity of HOL).
\<close>

record 'i RaRecord =
  record_id :: 'i

definition MAX_DATA_LENGTH_TO_CACHE :: nat where
  "MAX_DATA_LENGTH_TO_CACHE = 100"

definition allPagesDataLength :: "('r, 'm) InfiniteData \<Rightarrow> nat" where
  "allPagesDataLength d = foldl (\<lambda>acc page. acc + length (data page)) 0 (pages d)"

text \<open>
  The by-id cache maps the query key \<open>[resource, 'getOne', {id, meta}]\<close> to the cached
  record; an absent entry is \<open>undefined\<close>. \<open>setQueryData key updater\<close> stores what the
  updater returns for the old entry, and stores nothing when that is \<open>undefined\<close>.
\<close>

type_synonym 'm getOneKey = "string \<times> string \<times> string \<times> 'm"

definition setQueryData :: "'k \<Rightarrow> ('v option \<Rightarrow> 'v option) \<Rightarrow> ('k \<rightharpoonup> 'v) \<Rightarrow> ('k \<rightharpoonup> 'v)" where
  "setQueryData queryKey updater cache =
     (case updater (cache queryKey) of None \<Rightarrow> cache | Some v \<Rightarrow> cache(queryKey \<mapsto> v))"

text \<open>The updater \<open>oldRecord => oldRecord ?? record\<close>.\<close>

definition oldRecord_or :: "'v \<Rightarrow> 'v option \<Rightarrow> 'v option" where
  "oldRecord_or r oldRecord = (case oldRecord of None \<Rightarrow> Some r | Some old \<Rightarrow> Some old)"

text \<open>
  The body of the inner \<open>forEach\<close>, for one record. \<open>String\<close> of JavaScript, which turns
  an identifier (a string or a number) into a string, is the parameter \<open>idString\<close>;
  \<open>resource\<close> and \<open>meta\<close> are \<open>resourceValue.current\<close> and \<open>metaValue.current\<close>.
\<close>

definition promote_record ::
  "string \<Rightarrow> 'm \<Rightarrow> ('i \<Rightarrow> string) \<Rightarrow> ('i, 'z) RaRecord_scheme
   \<Rightarrow> ('m getOneKey \<rightharpoonup> ('i, 'z) RaRecord_scheme) \<Rightarrow> ('m getOneKey \<rightharpoonup> ('i, 'z) RaRecord_scheme)" where
  "promote_record resource meta idString r cache =
     setQueryData (resource, ''getOne'', idString (record_id r), meta) (oldRecord_or r) cache"

definition promote_pages ::
  "string \<Rightarrow> 'm \<Rightarrow> ('i \<Rightarrow> string) \<Rightarrow> (('i, 'z) RaRecord_scheme, 'm) PageResult list
   \<Rightarrow> ('m getOneKey \<rightharpoonup> ('i, 'z) RaRecord_scheme) \<Rightarrow> ('m getOneKey \<rightharpoonup> ('i, 'z) RaRecord_scheme)" where
  "promote_pages resource meta idString ps cache =
     fold (\<lambda>page. fold (promote_record resource meta idString) (data page)) ps cache"

text \<open>
  The body of the effect that populates the by-id cache and calls \<open>onSuccess\<close>. It returns
  the cache after the effect and the argument \<open>onSuccessEvent\<close> was called with
  (\<open>None\<close>: the effect returned before the call).
\<close>

definition promotion_effect ::
  "string \<Rightarrow> 'm \<Rightarrow> ('i \<Rightarrow> string) \<Rightarrow> (('i, 'z) RaRecord_scheme, 'm) QueryResult
   \<Rightarrow> ('m getOneKey \<rightharpoonup> ('i, 'z) RaRecord_scheme)
   \<Rightarrow> ('m getOneKey \<rightharpoonup> ('i, 'z) RaRecord_scheme) \<times> (('i, 'z) RaRecord_scheme, 'm) InfiniteData option" where
  "promotion_effect resource meta idString result cache =
     (case result_data result of
        None \<Rightarrow> (cache, None)
      | Some d \<Rightarrow>
          if result_error result \<noteq> None \<or> result_isFetching result then (cache, None)
          else
            ((if allPagesDataLength d \<le> MAX_DATA_LENGTH_TO_CACHE
              then promote_pages resource meta idString (pages d) cache
              else cache),
             Some d))"

text \<open>
  The body of the error effect: the argument \<open>onErrorEvent\<close> is called with, or \<open>None\<close>
  when the effect returns before the call.
\<close>

definition onError_effect :: "('r, 'm) QueryResult \<Rightarrow> error_value option" where
  "onError_effect result =
     (if result_error result = None \<or> result_isFetching result then None
      else result_error result)"

text \<open>
  React runs an effect after the first render and after every render in which an entry of
  its dependency array differs from the render before. The entries of the error effect
  that can change are \<open>result.error\<close> and \<open>result.isFetching\<close> (\<open>onErrorEvent\<close> is stable).
  \<open>onError_calls prev results\<close> lists the calls of \<open>onErrorEvent\<close> over successive
  renders, \<open>prev\<close> being the dependencies of the render before (\<open>None\<close>: first render).
\<close>

fun onError_calls ::
  "(error_value option \<times> bool) option \<Rightarrow> ('r, 'm) QueryResult list \<Rightarrow> error_value list" where
  "onError_calls prev [] = []"
| "onError_calls prev (result # results) =
     (if prev = Some (result_error result, result_isFetching result) then []
      else (case onError_effect result of None \<Rightarrow> [] | Some e \<Rightarrow> [e]))
     @ onError_calls (Some (result_error result, result_isFetching result)) results"

text \<open>The total the hook returns: \<open>result.data?.pages[0]?.total ?? undefined\<close>.\<close>

definition hook_total :: "('r, 'm) QueryResult \<Rightarrow> int option" where
  "hook_total result =
     (case result_data result of
        None \<Rightarrow> None
      | Some d \<Rightarrow> (case pages d of [] \<Rightarrow> None | p # _ \<Rightarrow> total_page p))"

section \<open>The list controller (useInfiniteReferenceManyFieldController)\<close>

subsection \<open>JavaScript values\<close>

text \<open>
  The values of filters, of the owner's identifier and of pass-through options. Objects are
  finite maps, so that the equality of HOL on these values is the deep structural
  comparison \<open>isEqual\<close> of lodash.
\<close>

datatype jsvalue =
    JUndefined
  | JNull
  | JBool bool
  | JNum int
  | JStr string
  | JArr "jsvalue list"
  | JObj "(string, jsvalue) fmap"

subsection \<open>The error notification\<close>

record Notification =
  notification_message :: string
  notification_type :: string
  messageArgs_default :: "string option"

text \<open>\<open>error.message || 'ra.notification.http_error'\<close>: the empty string is falsy.\<close>

definition message_or_http_error :: "string option \<Rightarrow> string" where
  "message_or_http_error m =
     (case m of None \<Rightarrow> ''ra.notification.http_error''
      | Some s \<Rightarrow> if s = [] then ''ra.notification.http_error'' else s)"

text \<open>The \<open>onError\<close> handler given to the hook: the call of \<open>notify\<close> it makes.\<close>

definition onError :: "error_value \<Rightarrow> Notification" where
  "onError e =
     \<lparr> notification_message =
         (case e of Message s \<Rightarrow> s | Structured _ m \<Rightarrow> message_or_http_error m),
       notification_type = ''error'',
       messageArgs_default =
         (case e of
            Message s \<Rightarrow> Some s
          | Structured _ m \<Rightarrow>
              (case m of None \<Rightarrow> None | Some s \<Rightarrow> if s = [] then None else Some s)) \<rparr>"

text \<open>The notifications over successive renders of one mounted controller.\<close>

definition notifications :: "('r, 'm) QueryResult list \<Rightarrow> Notification list" where
  "notifications results = map onError (onError_calls None results)"

text \<open>
  The transitions into an error, in the words of the specification: a render counts when
  its query has an error and is not fetching, and either it is the first render, or the
  render before was not in that state, or it held another error. \<open>error_transitions\<close>
  lists the errors of those renders (\<open>prev\<close> is the render before, \<open>None\<close> at the
  first render). It is compared with \<open>onError_calls\<close> below.
\<close>

definition settled_error :: "('r, 'm) QueryResult \<Rightarrow> bool" where
  "settled_error result = (result_error result \<noteq> None \<and> \<not> result_isFetching result)"

fun error_transitions ::
  "('r, 'm) QueryResult option \<Rightarrow> ('r, 'm) QueryResult list \<Rightarrow> error_value list" where
  "error_transitions prev [] = []"
| "error_transitions prev (result # results) =
     (case result_error result of
        None \<Rightarrow> []
      | Some e \<Rightarrow>
          if settled_error result \<and>
             (case prev of
                None \<Rightarrow> True
              | Some before \<Rightarrow>
                  \<not> settled_error before \<or> result_error before \<noteq> result_error result)
          then [e] else [])
     @ error_transitions (Some result) results"

subsection \<open>The result of the controller\<close>

record 'r ControllerResult =
  data_out :: "'r list option"
  error_out :: "error_value option"
  isLoading_out :: bool
  isPending_out :: bool
  total_out :: "int option"

definition unwrappedData :: "('r, 'm) QueryResult \<Rightarrow> 'r list option" where
  "unwrappedData result =
     (case result_data result of
        None \<Rightarrow> None
      | Some d \<Rightarrow> Some (foldl (\<lambda>acc page. acc @ data page) [] (pages d)))"

text \<open>The truthiness of \<open>error\<close> in \<open>if (error)\<close>: \<open>null\<close> and the empty string are falsy.\<close>

definition error_truthy :: "error_value option \<Rightarrow> bool" where
  "error_truthy e =
     (case e of None \<Rightarrow> False | Some (Message s) \<Rightarrow> s \<noteq> [] | Some (Structured _ _) \<Rightarrow> True)"

text \<open>
  The three \<open>return\<close>s of the controller, on the fields that differ between them
  (\<open>baseProps\<close> is the same in all three). \<open>None\<close> in \<open>data_out\<close> and \<open>total_out\<close> is
  \<open>undefined\<close>, in \<open>error_out\<close> it is \<open>null\<close>.
\<close>

definition controller_result :: "('r, 'm) QueryResult \<Rightarrow> 'r ControllerResult" where
  "controller_result result =
     (if error_truthy (result_error result) then
        \<lparr> data_out = None, error_out = result_error result, isLoading_out = False,
          isPending_out = False, total_out = None \<rparr>
      else if isPending result then
        \<lparr> data_out = None, error_out = None, isLoading_out = True,
          isPending_out = True, total_out = None \<rparr>
      else
        \<lparr> data_out = Some (case unwrappedData result of None \<Rightarrow> [] | Some xs \<Rightarrow> xs),
          error_out = None, isLoading_out = False, isPending_out = False,
          total_out = Some (case hook_total result of None \<Rightarrow> - 1 | Some t \<Rightarrow> t) \<rparr>)"

subsection \<open>Enabling the query\<close>

text \<open>
  \<open>recordId\<close> is the value of \<open>get(record, source)\<close>. lodash's \<open>get\<close> is not among the
  sources, so the model takes the value it returns as given: \<open>JUndefined\<close> when the owner
  record or the property at \<open>source\<close> is absent, \<open>JNull\<close> when the property is \<open>null\<close>.
  \<open>nullish v\<close> is \<open>v == null\<close>, which holds of \<open>null\<close> and \<open>undefined\<close> only.
\<close>

definition nullish :: "jsvalue \<Rightarrow> bool" where
  "nullish v = (v = JNull \<or> v = JUndefined)"

text \<open>
  Of the caller's \<open>queryOptions\<close>, the key \<open>enabled\<close>: \<open>None\<close> when the object has no such
  key, \<open>Some v\<close> when the key is there with the value \<open>v\<close> (a value that is not a
  function), also when \<open>v\<close> is \<open>undefined\<close>. The options object given to the hook is
  \<open>{enabled: get(record, source) != null, ...queryOptions, onError: ...}\<close>: the spread
  comes after \<open>enabled\<close> and copies every key that is present, so a present key replaces
  the computed flag whatever its value. \<open>enabled\<close> is the property \<open>enabled\<close> of that
  object.
\<close>

definition enabled :: "jsvalue \<Rightarrow> jsvalue option \<Rightarrow> jsvalue" where
  "enabled recordId queryOptions_enabled =
     (case queryOptions_enabled of
        None \<Rightarrow> JBool (\<not> nullish recordId)
      | Some v \<Rightarrow> v)"

text \<open>The identifier given to the hook: \<open>recordId ?? ''\<close>.\<close>

definition recordId_or_empty :: "jsvalue \<Rightarrow> jsvalue" where
  "recordId_or_empty recordId = (if nullish recordId then JStr [] else recordId)"

text \<open>
  Modelled from the spec: \<open>useInfiniteQuery\<close> of the query library is not among the
  sources. The spec: a disabled query issues no fetch and is reported in the pending state;
  a handle is pending until its first resolution is available. The library takes a query
  as disabled only when its option \<open>enabled\<close> is \<open>false\<close>; every other value, \<open>undefined\<close>
  among them, leaves it enabled. For a query key that has nothing in the cache, the value
  the hook sees and the fetches issued (the owner identifier and the cursor of each) are
  as follows.
\<close>

definition useInfiniteQuery_first ::
  "jsvalue \<Rightarrow> jsvalue \<Rightarrow> int \<Rightarrow> ('r, 'm) QueryResult \<times> (jsvalue \<times> int) list" where
  "useInfiniteQuery_first enabled_option owner_id initialPageParam =
     (\<lparr> result_data = None, result_error = None,
        result_isFetching = (enabled_option \<noteq> JBool False),
        result_status = StatusPending \<rparr>,
      if enabled_option \<noteq> JBool False then [(owner_id, initialPageParam)] else [])"

text \<open>The first render of the controller: its result and the fetches issued.\<close>

definition controller_first_render ::
  "jsvalue \<Rightarrow> jsvalue option \<Rightarrow> int \<Rightarrow> 'r ControllerResult \<times> (jsvalue \<times> int) list" where
  "controller_first_render recordId queryOptions_enabled page_prop =
     (let (result :: ('r, unit) QueryResult, fetches) =
            useInfiniteQuery_first (enabled recordId queryOptions_enabled)
              (recordId_or_empty recordId) page_prop
      in (controller_result result, fetches))"

subsection \<open>Pagination, sort and filter state\<close>

type_synonym FilterPayload = "string \<rightharpoonup> jsvalue"

type_synonym DisplayedFilters = "string \<rightharpoonup> bool"

record SortPayload =
  sort_field :: string
  sort_order :: string

text \<open>
  Modelled from the spec: \<open>removeEmpty\<close> is imported from the react-admin package and
  is not among the sources. The spec: filter values are stripped of empty entries (empty
  string, empty container, null/undefined).
\<close>

definition isEmpty :: "jsvalue \<Rightarrow> bool" where
  "isEmpty v =
     (case v of
        JUndefined \<Rightarrow> True
      | JNull \<Rightarrow> True
      | JStr s \<Rightarrow> s = []
      | JArr xs \<Rightarrow> xs = []
      | JObj m \<Rightarrow> m = fmempty
      | _ \<Rightarrow> False)"

definition removeEmpty :: "FilterPayload \<Rightarrow> FilterPayload" where
  "removeEmpty filters =
     (\<lambda>k. case filters k of None \<Rightarrow> None | Some v \<Rightarrow> if isEmpty v then None else Some v)"

text \<open>
  The state of one mounted controller: the pagination state, the sort state, the two
  pieces of filter state, \<open>filterRef.current\<close>, and the timer of the debounced commit
  (the arguments of the last debounced call and the time its trailing edge is due; \<open>None\<close>
  when no call is waiting). \<open>calls\<close> records every call of a state setter, oldest first.
\<close>

datatype setter_call =
    SetPage int
  | SetSortState SortPayload
  | SetFilterValues FilterPayload
  | SetDisplayedFilters DisplayedFilters

record controller_state =
  page :: int
  perPage :: int
  sort_state :: SortPayload
  displayedFilters :: DisplayedFilters
  filterValues :: FilterPayload
  filterRef :: FilterPayload
  timer :: "(FilterPayload \<times> DisplayedFilters \<times> nat) option"
  calls :: "setter_call list"

definition setPage :: "int \<Rightarrow> controller_state \<Rightarrow> controller_state" where
  "setPage n st = st\<lparr> page := n, calls := calls st @ [SetPage n] \<rparr>"

definition setSortState :: "SortPayload \<Rightarrow> controller_state \<Rightarrow> controller_state" where
  "setSortState s st = st\<lparr> sort_state := s, calls := calls st @ [SetSortState s] \<rparr>"

definition setFilterValues :: "FilterPayload \<Rightarrow> controller_state \<Rightarrow> controller_state" where
  "setFilterValues f st = st\<lparr> filterValues := f, calls := calls st @ [SetFilterValues f] \<rparr>"

definition setDisplayedFilters :: "DisplayedFilters \<Rightarrow> controller_state \<Rightarrow> controller_state" where
  "setDisplayedFilters d st =
     st\<lparr> displayedFilters := d, calls := calls st @ [SetDisplayedFilters d] \<rparr>"

text \<open>The state of the first render: \<open>useRef(filter)\<close>, \<open>useSafeSetState(filter)\<close>.\<close>

definition initial_state :: "int \<Rightarrow> int \<Rightarrow> SortPayload \<Rightarrow> FilterPayload \<Rightarrow> controller_state" where
  "initial_state initialPage initialPerPage initialSort filter_prop =
     \<lparr> page = initialPage, perPage = initialPerPage, sort_state = initialSort,
       displayedFilters = Map.empty, filterValues = filter_prop, filterRef = filter_prop,
       timer = None, calls = [] \<rparr>"

definition setSort :: "SortPayload \<Rightarrow> controller_state \<Rightarrow> controller_state" where
  "setSort s st = setPage 1 (setSortState s st)"

text \<open>
  The function given to \<open>lodashDebounce\<close>: the commit of a filter change.
\<close>

definition commit_filters ::
  "FilterPayload \<Rightarrow> DisplayedFilters \<Rightarrow> controller_state \<Rightarrow> controller_state" where
  "commit_filters filters displayed st =
     setPage 1 (setDisplayedFilters displayed (setFilterValues (removeEmpty filters) st))"

text \<open>
  Modelled from the spec: \<open>debounce\<close> of lodash is not among the sources. The spec: a
  trailing-edge debounce of the configured duration; on each call, cancel any pending
  timer and schedule a new one with the latest arguments, firing exactly once when the
  window elapses with no intervening reset. A call at the time \<open>now\<close> keeps its arguments
  and moves the trailing edge to \<open>now + wait\<close>; when the time reaches the trailing edge,
  the function given to \<open>lodashDebounce\<close> runs once with the arguments kept. Times are
  in milliseconds.
\<close>

definition debouncedSetFilters ::
  "nat \<Rightarrow> nat \<Rightarrow> FilterPayload \<Rightarrow> DisplayedFilters \<Rightarrow> controller_state \<Rightarrow> controller_state" where
  "debouncedSetFilters wait now filters displayed st =
     st\<lparr> timer := Some (filters, displayed, now + wait) \<rparr>"

definition advance :: "nat \<Rightarrow> controller_state \<Rightarrow> controller_state" where
  "advance now st =
     (case timer st of
        None \<Rightarrow> st
      | Some (filters, displayed, due) \<Rightarrow>
          if due \<le> now then commit_filters filters displayed (st\<lparr> timer := None \<rparr>) else st)"

definition setFilters ::
  "nat \<Rightarrow> nat \<Rightarrow> FilterPayload \<Rightarrow> DisplayedFilters \<Rightarrow> bool \<Rightarrow> controller_state
   \<Rightarrow> controller_state" where
  "setFilters wait now filters displayed debounce st =
     (if debounce then debouncedSetFilters wait now filters displayed st
      else commit_filters filters displayed st)"

text \<open>
  The effect without a dependency array, run after every render; \<open>filter_prop\<close> is the
  default filter the caller gave to that render.
\<close>

definition filter_effect :: "FilterPayload \<Rightarrow> controller_state \<Rightarrow> controller_state" where
  "filter_effect filter_prop st =
     (if filter_prop \<noteq> filterRef st
      then setFilterValues filter_prop (st\<lparr> filterRef := filter_prop \<rparr>)
      else st)"

text \<open>
  What happens to a mounted controller, each at a time: a call of \<open>setFilters\<close>, a call of
  \<open>setSort\<close>, or a render with the caller's default filter. A timer that is due fires
  before the event is handled.
\<close>

datatype event =
    SetFilters FilterPayload DisplayedFilters bool
  | SetSort SortPayload
  | Render FilterPayload

fun handle :: "nat \<Rightarrow> nat \<Rightarrow> event \<Rightarrow> controller_state \<Rightarrow> controller_state" where
  "handle wait now (SetFilters filters displayed debounce) st =
     setFilters wait now filters displayed debounce st"
| "handle wait now (SetSort s) st = setSort s st"
| "handle wait now (Render filter_prop) st = filter_effect filter_prop st"

fun run :: "nat \<Rightarrow> (nat \<times> event) list \<Rightarrow> controller_state \<Rightarrow> controller_state" where
  "run wait [] st = st"
| "run wait ((now, e) # es) st = run wait es (handle wait now e (advance now st))"

text \<open>
  Calls fall within one debounce window when each comes before the trailing edge of the
  one before it.
\<close>

fun within_window :: "nat \<Rightarrow> nat list \<Rightarrow> bool" where
  "within_window wait [] = True"
| "within_window wait [t] = True"
| "within_window wait (t # u # ts) = (t \<le> u \<and> u < t + wait \<and> within_window wait (u # ts))"

definition debounced_calls ::
  "(nat \<times> FilterPayload \<times> DisplayedFilters) list \<Rightarrow> (nat \<times> event) list" where
  "debounced_calls cs = map (\<lambda>(t, filters, displayed). (t, SetFilters filters displayed True)) cs"

section \<open>Cursor advancement\<close>

lemma total_or_0_Some: "total_or_0 (Some t) = t"
  by (simp add: total_or_0_def)

lemma js_less_ceil_div:
  assumes "n \<noteq> 0"
  shows "js_less c (Math_ceil (js_div t n))
         \<longleftrightarrow> c < \<lceil>real_of_int t / real_of_int n\<rceil>"
proof -
  have "\<lceil>rat_of_int t / rat_of_int n\<rceil> = \<lceil>real_of_int t / real_of_int n\<rceil>"
    by (simp add: ceiling_divide_eq_div)
  with assms show ?thesis
    by (simp add: js_div_def)
qed

text \<open>
  With \<open>perPage = 0\<close> the quotient is an infinity or \<open>NaN\<close>: a page without \<open>pageInfo\<close>
  has a next cursor exactly when its total is positive, whatever the cursor.
\<close>

lemma getNextPageParam_perPage_zero:
  fixes r :: "('r, 'm) PageResult"
  assumes "pageInfo r = None" and "safe_integer (pageParam r)"
  shows "getNextPageParam 0 r
           = (if 0 < total_or_0 (total_page r) then Some (pageParam r + 1) else None)"
  using assms by (simp add: getNextPageParam_def js_div_def)

text \<open>
  C1. For a page fetched with the cursor \<open>c\<close>, a safe integer: when the page has a
  \<open>pageInfo\<close>, the next cursor exists exactly when \<open>pageInfo.hasNextPage\<close> holds and is
  \<open>c + 1\<close>, and the previous cursor exists exactly when \<open>pageInfo.hasPreviousPage\<close> holds
  and is \<open>c - 1\<close>. When the page has no \<open>pageInfo\<close>, the next cursor exists exactly when
  \<open>c < ceil(total / perPage)\<close> and is \<open>c + 1\<close> (for a reported total and a \<open>perPage\<close>
  other than zero, where the quotient is defined, both safe integers), and the previous
  cursor exists exactly when \<open>c \<noteq> 1\<close> and is \<open>c - 1\<close>.
\<close>

theorem cursor_advancement_dual_policy:
  fixes r :: "('r, 'm) PageResult"
  assumes "safe_integer (pageParam r)"
  shows
  "(pageInfo r = Some info \<longrightarrow>
      getNextPageParam n r
        = (if hasNextPage info = Some True then Some (pageParam r + 1) else None) \<and>
      getPreviousPageParam r
        = (if hasPreviousPage info = Some True then Some (pageParam r - 1) else None))
   \<and> (pageInfo r = None \<and> total_page r = Some t \<and> safe_integer t \<and> safe_integer n \<and> n \<noteq> 0
        \<longrightarrow>
      getNextPageParam n r
        = (if pageParam r < \<lceil>real_of_int t / real_of_int n\<rceil>
           then Some (pageParam r + 1) else None))
   \<and> (pageInfo r = None \<longrightarrow>
      getPreviousPageParam r = (if pageParam r \<noteq> 1 then Some (pageParam r - 1) else None))"
  by (simp add: getNextPageParam_def getPreviousPageParam_def truthy_def total_or_0_Some
      js_less_ceil_div)

text \<open>
  The example of the specification: without \<open>pageInfo\<close>, with \<open>total = 95\<close> and
  \<open>perPage = 25\<close>, page 3 has a next page and page 4 has none.
\<close>

theorem cursor_advancement_dual_policy_witness:
  "getNextPageParam 25 \<lparr> data = ([] :: unit list), total_page = Some 95, pageParam = 3,
      pageInfo = None, meta_page = (None :: unit option) \<rparr> = Some 4
   \<and> getNextPageParam 25 \<lparr> data = ([] :: unit list), total_page = Some 95, pageParam = 4,
      pageInfo = None, meta_page = (None :: unit option) \<rparr> = None
   \<and> getPreviousPageParam \<lparr> data = ([] :: unit list), total_page = Some 95, pageParam = 4,
      pageInfo = None, meta_page = (None :: unit option) \<rparr> = Some 3
   \<and> getNextPageParam 25 \<lparr> data = ([] :: unit list), total_page = Some 95, pageParam = 2,
      pageInfo = Some \<lparr> hasNextPage = Some False, hasPreviousPage = Some True \<rparr>,
      meta_page = (None :: unit option) \<rparr> = None
   \<and> getPreviousPageParam \<lparr> data = ([] :: unit list), total_page = Some 95, pageParam = 2,
      pageInfo = Some \<lparr> hasNextPage = Some False, hasPreviousPage = Some True \<rparr>,
      meta_page = (None :: unit option) \<rparr> = Some 1"
proof -
  let ?p3 = "\<lparr> data = ([] :: unit list), total_page = Some 95, pageParam = 3,
               pageInfo = None, meta_page = (None :: unit option) \<rparr>"
  let ?p4 = "\<lparr> data = ([] :: unit list), total_page = Some 95, pageParam = 4,
               pageInfo = None, meta_page = (None :: unit option) \<rparr>"
  let ?info = "\<lparr> hasNextPage = Some False, hasPreviousPage = Some True \<rparr>"
  let ?p2 = "\<lparr> data = ([] :: unit list), total_page = Some 95, pageParam = 2,
               pageInfo = Some ?info, meta_page = (None :: unit option) \<rparr>"
  have safe: "safe_integer (pageParam ?p3)" "safe_integer (pageParam ?p4)"
    "safe_integer (pageParam ?p2)" "safe_integer 95" "safe_integer 25"
    by (simp_all add: safe_integer_def)
  from cursor_advancement_dual_policy [OF safe(1), of _ 25 95]
    cursor_advancement_dual_policy [OF safe(2), of _ 25 95]
    cursor_advancement_dual_policy [OF safe(3), of ?info 25 95] safe(4,5)
  show ?thesis by simp
qed

text \<open>
  C10, as amended. For a page with neither \<open>pageInfo\<close> nor a total, fetched with a cursor
  that is a safe integer, the missing total is treated as \<open>0\<close>: the next cursor is the one
  of the same page with \<open>total = 0\<close>. It exists exactly when the cursor is negative and
  \<open>perPage\<close> is not zero, and is then \<open>c + 1\<close>; so no next cursor exists for any cursor
  from \<open>0\<close> on. The previous cursor exists whenever the cursor is not \<open>1\<close>, and is
  \<open>c - 1\<close>.
\<close>

theorem missing_total_as_zero:
  fixes r :: "('r, 'm) PageResult"
  assumes "safe_integer (pageParam r)"
  shows
  "pageInfo r = None \<and> total_page r = None \<longrightarrow>
     getNextPageParam n r = getNextPageParam n (r\<lparr> total_page := Some 0 \<rparr>)
     \<and> getNextPageParam n r
         = (if pageParam r < 0 \<and> n \<noteq> 0 then Some (pageParam r + 1) else None)
     \<and> getPreviousPageParam r = (if pageParam r = 1 then None else Some (pageParam r - 1))"
  by (simp add: getNextPageParam_def getPreviousPageParam_def total_or_0_def js_div_def)

theorem missing_total_as_zero_witness:
  "getNextPageParam 25 \<lparr> data = ([] :: unit list), total_page = None, pageParam = 7,
      pageInfo = None, meta_page = (None :: unit option) \<rparr> = None
   \<and> getNextPageParam 25 \<lparr> data = ([] :: unit list), total_page = None, pageParam = - 3,
      pageInfo = None, meta_page = (None :: unit option) \<rparr> = Some (- 2)
   \<and> getPreviousPageParam \<lparr> data = ([] :: unit list), total_page = None, pageParam = 7,
      pageInfo = None, meta_page = (None :: unit option) \<rparr> = Some 6"
proof -
  let ?p7 = "\<lparr> data = ([] :: unit list), total_page = None, pageParam = 7,
               pageInfo = None, meta_page = (None :: unit option) \<rparr>"
  let ?m3 = "\<lparr> data = ([] :: unit list), total_page = None, pageParam = - 3,
               pageInfo = None, meta_page = (None :: unit option) \<rparr>"
  have safe: "safe_integer (pageParam ?p7)" "safe_integer (pageParam ?m3)"
    by (simp_all add: safe_integer_def)
  from missing_total_as_zero [OF safe(1), of 25] missing_total_as_zero [OF safe(2), of 25]
  show ?thesis by auto
qed

text \<open>
  The claim as it was stated (no next cursor whatever the cursor) fails at the cursor
  \<open>-1\<close>: \<open>-1 < ceil(0 / 25) = 0\<close>, so the next cursor \<open>0\<close> exists. The page at
  \<open>-1\<close> is the last loaded page, the one \<open>getNextPageParam\<close> is asked about, when the
  initial page is \<open>-1\<close>, or when the library trims the list of pages after a backward
  fetch.
\<close>

theorem missing_total_counterexample:
  "getNextPageParam 25 \<lparr> data = ([] :: unit list), total_page = None, pageParam = - 1,
      pageInfo = None, meta_page = (None :: unit option) \<rparr> = Some 0"
  by (simp add: getNextPageParam_def total_or_0_def js_div_def)

section \<open>Record promotion\<close>

lemma foldl_length_data:
  "foldl (\<lambda>acc page. acc + length (data page)) a ps = a + length (concat (map data ps))"
  by (induction ps arbitrary: a) simp_all

lemma allPagesDataLength_concat:
  "allPagesDataLength d = length (concat (map data (pages d)))"
  by (simp add: allPagesDataLength_def foldl_length_data)

lemma foldl_append_data:
  "foldl (\<lambda>acc page. acc @ data page) a ps = a @ concat (map data ps)"
  by (induction ps arbitrary: a) simp_all

lemma promote_record_lookup:
  "promote_record resource meta idString r cache k =
     (case cache k of
        Some old \<Rightarrow> Some old
      | None \<Rightarrow> if (resource, ''getOne'', idString (record_id r), meta) = k then Some r else None)"
  by (auto simp: promote_record_def setQueryData_def oldRecord_or_def split: option.splits)

lemma fold_promote_record_lookup:
  "fold (promote_record resource meta idString) rs cache k =
     (case cache k of
        Some old \<Rightarrow> Some old
      | None \<Rightarrow> find (\<lambda>r. (resource, ''getOne'', idString (record_id r), meta) = k) rs)"
proof (induction rs arbitrary: cache)
  case Nil
  then show ?case by (simp split: option.splits)
next
  case (Cons r rs)
  let ?f = "promote_record resource meta idString"
  let ?P = "\<lambda>r. (resource, ''getOne'', idString (record_id r), meta) = k"
  have "fold ?f (r # rs) cache k = fold ?f rs (?f r cache) k"
    by simp
  also have "\<dots> = (case ?f r cache k of Some old \<Rightarrow> Some old | None \<Rightarrow> find ?P rs)"
    by (rule Cons.IH)
  also have "\<dots> = (case cache k of Some old \<Rightarrow> Some old | None \<Rightarrow> find ?P (r # rs))"
    by (simp add: promote_record_lookup split: option.splits)
  finally show ?case .
qed

lemma promote_pages_concat:
  "promote_pages resource meta idString ps cache =
     fold (promote_record resource meta idString) (concat (map data ps)) cache"
  by (induction ps arbitrary: cache) (simp_all add: promote_pages_def)

text \<open>
  C2. When the query has data, no error and is not fetching, the effect counts the records
  of all pages. If there are at most 100, every record of every page is written under its
  key \<open>[resource, 'getOne', {id, meta}]\<close>, and the first writer wins: a key that had an
  entry keeps it, and a key that had none gets the first record, in page order, with that
  key. If there are more than 100, the cache is left as it was.
\<close>

theorem record_promotion_first_writer_wins:
  fixes result :: "(('i, 'z) RaRecord_scheme, 'm) QueryResult"
  assumes "result_data result = Some d"
    and "result_error result = None"
    and "\<not> result_isFetching result"
  shows
    "(length (concat (map data (pages d))) \<le> 100 \<longrightarrow>
        fst (promotion_effect resource meta idString result cache) k =
           (case cache k of
              Some old \<Rightarrow> Some old
            | None \<Rightarrow>
                find (\<lambda>r. (resource, ''getOne'', idString (record_id r), meta) = k)
                  (concat (map data (pages d)))))
     \<and> (100 < length (concat (map data (pages d))) \<longrightarrow>
          fst (promotion_effect resource meta idString result cache) = cache)"
  using assms
  by (simp add: promotion_effect_def allPagesDataLength_concat MAX_DATA_LENGTH_TO_CACHE_def
      promote_pages_concat fold_promote_record_lookup)

text \<open>
  One page of two records, \<open>a\<close> already cached: the old entry of \<open>a\<close> stays and
  \<open>b\<close> is written. Two pages of 50 and 60 records: nothing is written.
\<close>

theorem record_promotion_first_writer_wins_witness:
  "fst (promotion_effect ''posts'' () (\<lambda>i. i)
      \<lparr> result_data = Some \<lparr> pages = [\<lparr> data = [\<lparr> record_id = ''a'', \<dots> = ''new a'' \<rparr>,
                                                  \<lparr> record_id = ''b'', \<dots> = ''new b'' \<rparr>],
                                          total_page = Some 2, pageParam = 1, pageInfo = None,
                                          meta_page = None \<rparr>],
                              pageParams = [1] \<rparr>,
        result_error = None, result_isFetching = False, result_status = StatusSuccess \<rparr>
      [(''posts'', ''getOne'', ''a'', ()) \<mapsto> \<lparr> record_id = ''a'', \<dots> = ''old a'' \<rparr>])
     (''posts'', ''getOne'', ''a'', ()) = Some \<lparr> record_id = ''a'', \<dots> = ''old a'' \<rparr>
   \<and> fst (promotion_effect ''posts'' () (\<lambda>i. i)
      \<lparr> result_data = Some \<lparr> pages = [\<lparr> data = [\<lparr> record_id = ''a'', \<dots> = ''new a'' \<rparr>,
                                                  \<lparr> record_id = ''b'', \<dots> = ''new b'' \<rparr>],
                                          total_page = Some 2, pageParam = 1, pageInfo = None,
                                          meta_page = None \<rparr>],
                              pageParams = [1] \<rparr>,
        result_error = None, result_isFetching = False, result_status = StatusSuccess \<rparr>
      [(''posts'', ''getOne'', ''a'', ()) \<mapsto> \<lparr> record_id = ''a'', \<dots> = ''old a'' \<rparr>])
     (''posts'', ''getOne'', ''b'', ()) = Some \<lparr> record_id = ''b'', \<dots> = ''new b'' \<rparr>
   \<and> fst (promotion_effect ''posts'' () (\<lambda>i. i)
      \<lparr> result_data = Some \<lparr> pages = [\<lparr> data = replicate 50 \<lparr> record_id = ''a'', \<dots> = ''new a'' \<rparr>,
                                          total_page = Some 110, pageParam = 1, pageInfo = None,
                                          meta_page = None \<rparr>,
                                        \<lparr> data = replicate 60 \<lparr> record_id = ''b'', \<dots> = ''new b'' \<rparr>,
                                          total_page = Some 110, pageParam = 2, pageInfo = None,
                                          meta_page = None \<rparr>],
                              pageParams = [1, 2] \<rparr>,
        result_error = None, result_isFetching = False, result_status = StatusSuccess \<rparr>
      Map.empty) = Map.empty"
proof -
  let ?cache = "[(''posts'', ''getOne'', ''a'', ()) \<mapsto> \<lparr> record_id = ''a'', \<dots> = ''old a'' \<rparr>]"
  let ?small = "\<lparr> pages = [\<lparr> data = [\<lparr> record_id = ''a'', \<dots> = ''new a'' \<rparr>,
                                      \<lparr> record_id = ''b'', \<dots> = ''new b'' \<rparr>],
                              total_page = Some 2, pageParam = 1, pageInfo = None,
                              meta_page = None \<rparr>],
                  pageParams = [1] \<rparr>"
  let ?big = "\<lparr> pages = [\<lparr> data = replicate 50 \<lparr> record_id = ''a'', \<dots> = ''new a'' \<rparr>,
                            total_page = Some 110, pageParam = 1, pageInfo = None,
                            meta_page = None \<rparr>,
                          \<lparr> data = replicate 60 \<lparr> record_id = ''b'', \<dots> = ''new b'' \<rparr>,
                            total_page = Some 110, pageParam = 2, pageInfo = None,
                            meta_page = None \<rparr>],
                pageParams = [1, 2] \<rparr>"
  let ?ok = "\<lparr> result_data = Some ?small, result_error = None, result_isFetching = False,
               result_status = StatusSuccess \<rparr>"
  let ?over = "\<lparr> result_data = Some ?big, result_error = None, result_isFetching = False,
                 result_status = StatusSuccess \<rparr>"
  have ok: "result_data ?ok = Some ?small" "result_error ?ok = None" "\<not> result_isFetching ?ok"
    by simp_all
  have over: "result_data ?over = Some ?big" "result_error ?over = None"
    "\<not> result_isFetching ?over"
    by simp_all
  note a = record_promotion_first_writer_wins [OF ok, of "''posts''" "()" "\<lambda>i. i" ?cache
      "(''posts'', ''getOne'', ''a'', ())"]
  note b = record_promotion_first_writer_wins [OF ok, of "''posts''" "()" "\<lambda>i. i" ?cache
      "(''posts'', ''getOne'', ''b'', ())"]
  note c = record_promotion_first_writer_wins [OF over, of "''posts''" "()" "\<lambda>i. i" Map.empty]
  from a b c show ?thesis by simp
qed

section \<open>The result of the controller\<close>

text \<open>
  C3. On success the result of the controller has as data the concatenation, in the order
  of the page sequence, of the records of every loaded page; as total the total of the
  first page, or \<open>-1\<close> when that page reported none; and \<open>isPending\<close> is false.
\<close>

theorem controller_success_result:
  fixes result :: "('r, 'm) QueryResult"
  assumes "result_status result = StatusSuccess"
    and "result_error result = None"
    and "result_data result = Some d"
  shows
    "data_out (controller_result result) = Some (concat (map data (pages d)))
     \<and> total_out (controller_result result)
         = Some (case pages d of
                   [] \<Rightarrow> - 1
                 | p # _ \<Rightarrow> (case total_page p of None \<Rightarrow> - 1 | Some t \<Rightarrow> t))
     \<and> isPending_out (controller_result result) = False"
  using assms
  by (simp add: controller_result_def error_truthy_def isPending_def unwrappedData_def
      hook_total_def foldl_append_data split: list.splits option.splits)

theorem controller_success_result_witness:
  "data_out (controller_result
      \<lparr> result_data = Some \<lparr> pages = [\<lparr> data = [10, 11 :: nat], total_page = Some 3,
                                          pageParam = 1, pageInfo = None,
                                          meta_page = (None :: unit option) \<rparr>,
                                        \<lparr> data = [12], total_page = Some 4, pageParam = 2,
                                          pageInfo = None, meta_page = None \<rparr>],
                              pageParams = [1, 2] \<rparr>,
        result_error = None, result_isFetching = False, result_status = StatusSuccess \<rparr>)
     = Some [10, 11, 12]
   \<and> total_out (controller_result
      \<lparr> result_data = Some \<lparr> pages = [\<lparr> data = [10, 11 :: nat], total_page = Some 3,
                                          pageParam = 1, pageInfo = None,
                                          meta_page = (None :: unit option) \<rparr>,
                                        \<lparr> data = [12], total_page = Some 4, pageParam = 2,
                                          pageInfo = None, meta_page = None \<rparr>],
                              pageParams = [1, 2] \<rparr>,
        result_error = None, result_isFetching = False, result_status = StatusSuccess \<rparr>)
     = Some 3
   \<and> total_out (controller_result
      \<lparr> result_data = Some \<lparr> pages = [\<lparr> data = [10, 11 :: nat], total_page = None,
                                          pageParam = 1, pageInfo = None,
                                          meta_page = (None :: unit option) \<rparr>],
                              pageParams = [1] \<rparr>,
        result_error = None, result_isFetching = False, result_status = StatusSuccess \<rparr>)
     = Some (- 1)"
  using
    controller_success_result [where
      d = "\<lparr> pages = [\<lparr> data = [10, 11 :: nat], total_page = Some 3,
                          pageParam = 1, pageInfo = None,
                          meta_page = (None :: unit option) \<rparr>,
                        \<lparr> data = [12], total_page = Some 4, pageParam = 2,
                          pageInfo = None, meta_page = None \<rparr>],
              pageParams = [1, 2] \<rparr>"
      and result = "\<lparr> result_data = Some \<lparr> pages = [\<lparr> data = [10, 11 :: nat], total_page = Some 3,
                                          pageParam = 1, pageInfo = None,
                                          meta_page = (None :: unit option) \<rparr>,
                                        \<lparr> data = [12], total_page = Some 4, pageParam = 2,
                                          pageInfo = None, meta_page = None \<rparr>],
                              pageParams = [1, 2] \<rparr>,
        result_error = None, result_isFetching = False, result_status = StatusSuccess \<rparr>"]
    controller_success_result [where
      d = "\<lparr> pages = [\<lparr> data = [10, 11 :: nat], total_page = None,
                          pageParam = 1, pageInfo = None,
                          meta_page = (None :: unit option) \<rparr>],
              pageParams = [1] \<rparr>"
      and result = "\<lparr> result_data = Some \<lparr> pages = [\<lparr> data = [10, 11 :: nat], total_page = None,
                                          pageParam = 1, pageInfo = None,
                                          meta_page = (None :: unit option) \<rparr>],
                              pageParams = [1] \<rparr>,
        result_error = None, result_isFetching = False, result_status = StatusSuccess \<rparr>"]
  by simp

section \<open>Enabling the query\<close>

text \<open>
  C4, as amended. When the identifying field of the owner record is \<open>null\<close> or absent,
  the query is disabled if the caller's \<open>queryOptions\<close> have no key \<open>enabled\<close>, or have
  it with the value \<open>false\<close>: no fetch is issued, and the controller reports the pending
  state (data undefined, \<open>isPending\<close> true, error \<open>null\<close>), not an error. If
  \<open>queryOptions\<close> have the key \<open>enabled\<close> with any other value (\<open>true\<close>, but also
  \<open>undefined\<close> or \<open>null\<close>), the query is not disabled: the page at the initial cursor is
  fetched, with the empty string as owner identifier.
\<close>

theorem disabled_without_identifier:
  "recordId = JNull \<or> recordId = JUndefined \<longrightarrow>
     ((queryOptions_enabled = None \<or> queryOptions_enabled = Some (JBool False) \<longrightarrow>
         enabled recordId queryOptions_enabled = JBool False
         \<and> snd (controller_first_render recordId queryOptions_enabled page_prop
                  :: 'r ControllerResult \<times> (jsvalue \<times> int) list) = []
         \<and> fst (controller_first_render recordId queryOptions_enabled page_prop
                  :: 'r ControllerResult \<times> (jsvalue \<times> int) list)
             = \<lparr> data_out = None, error_out = None, isLoading_out = True,
                 isPending_out = True, total_out = None \<rparr>)
      \<and> (queryOptions_enabled = Some v \<and> v \<noteq> JBool False \<longrightarrow>
           enabled recordId queryOptions_enabled = v
           \<and> snd (controller_first_render recordId queryOptions_enabled page_prop
                    :: 'r ControllerResult \<times> (jsvalue \<times> int) list)
               = [(JStr [], page_prop)]))"
  by (auto simp: enabled_def nullish_def recordId_or_empty_def controller_first_render_def
      useInfiniteQuery_first_def controller_result_def error_truthy_def isPending_def)

theorem disabled_without_identifier_witness:
  "enabled JNull None = JBool False
   \<and> snd (controller_first_render JNull None 1
            :: unit ControllerResult \<times> (jsvalue \<times> int) list) = []
   \<and> fst (controller_first_render JNull None 1
            :: unit ControllerResult \<times> (jsvalue \<times> int) list)
       = \<lparr> data_out = None, error_out = None, isLoading_out = True, isPending_out = True,
           total_out = None \<rparr>
   \<and> snd (controller_first_render JUndefined (Some (JBool False)) 1
            :: unit ControllerResult \<times> (jsvalue \<times> int) list) = []
   \<and> snd (controller_first_render JUndefined (Some JNull) 1
            :: unit ControllerResult \<times> (jsvalue \<times> int) list) = [(JStr [], 1)]"
  using
    disabled_without_identifier [of JNull None 1 _, where ?'r = unit]
    disabled_without_identifier [of JUndefined "Some (JBool False)" 1 _, where ?'r = unit]
    disabled_without_identifier [of JUndefined "Some JNull" 1 JNull, where ?'r = unit]
  by simp

text \<open>
  The claim as it was stated (disabled for every such owner record) fails when the caller
  passes \<open>queryOptions = {enabled: true}\<close>, and also \<open>{enabled: undefined}\<close>: the spread
  replaces the computed \<open>enabled\<close>, and the page at the initial cursor is fetched although
  the identifier is \<open>null\<close>.
\<close>

theorem disabled_without_identifier_counterexample:
  "enabled JNull (Some (JBool True)) = JBool True
   \<and> snd (controller_first_render JNull (Some (JBool True)) 1
            :: unit ControllerResult \<times> (jsvalue \<times> int) list) = [(JStr [], 1)]
   \<and> enabled JNull (Some JUndefined) = JUndefined
   \<and> snd (controller_first_render JNull (Some JUndefined) 1
            :: unit ControllerResult \<times> (jsvalue \<times> int) list) = [(JStr [], 1)]"
  by (simp add: enabled_def nullish_def recordId_or_empty_def controller_first_render_def
      useInfiniteQuery_first_def)

section \<open>The error notification\<close>

lemma onError_calls_transitions:
  "onError_calls (map_option (\<lambda>p. (result_error p, result_isFetching p)) prev) results
     = error_transitions prev results"
proof (induction results arbitrary: prev)
  case Nil
  show ?case by simp
next
  case (Cons r rs)
  have step: "(if map_option (\<lambda>p. (result_error p, result_isFetching p)) prev
                   = Some (result_error r, result_isFetching r) then []
               else (case onError_effect r of None \<Rightarrow> [] | Some e \<Rightarrow> [e]))
            = (case result_error r of
                 None \<Rightarrow> []
               | Some e \<Rightarrow>
                   if settled_error r \<and>
                      (case prev of
                         None \<Rightarrow> True
                       | Some before \<Rightarrow>
                           \<not> settled_error before \<or> result_error before \<noteq> result_error r)
                   then [e] else [])"
    by (cases prev) (auto simp: onError_effect_def settled_error_def split: option.splits)
  have "onError_calls (Some (result_error r, result_isFetching r)) rs
          = error_transitions (Some r) rs"
    using Cons.IH [of "Some r"] by simp
  with step show ?case by simp
qed

text \<open>
  C5, as amended. The text of the notification is the error itself when the error is a
  plain string, otherwise the \<open>message\<close> of the error when it has one that is not the
  empty string, otherwise the generic label \<open>ra.notification.http_error\<close>; its type is
  \<open>error\<close>. Over the renders of a controller, the notification fires exactly once for
  every transition into an error (never while the query is fetching, and not again while
  the same error stays settled).
\<close>

theorem error_notification:
  fixes results :: "('r, 'm) QueryResult list"
  shows
  "notification_message (onError (Message s)) = s
   \<and> (m \<noteq> [] \<longrightarrow> notification_message (onError (Structured i (Some m))) = m)
   \<and> notification_message (onError (Structured i (Some []))) = ''ra.notification.http_error''
   \<and> notification_message (onError (Structured i None)) = ''ra.notification.http_error''
   \<and> notification_type (onError e) = ''error''
   \<and> notifications results = map onError (error_transitions None results)"
  using onError_calls_transitions [of None results]
  by (simp add: onError_def message_or_http_error_def notifications_def)

theorem error_notification_witness:
  "notification_message (onError (Structured 1 (Some ''boom''))) = ''boom''
   \<and> notifications
        [ \<lparr> result_data = (None :: (unit, unit) InfiniteData option), result_error = None,
            result_isFetching = True, result_status = StatusPending \<rparr>,
          \<lparr> result_data = None, result_error = Some (Structured 1 (Some ''boom'')),
            result_isFetching = False, result_status = StatusError \<rparr>,
          \<lparr> result_data = None, result_error = Some (Structured 1 (Some ''boom'')),
            result_isFetching = False, result_status = StatusError \<rparr>,
          \<lparr> result_data = None, result_error = Some (Structured 1 (Some ''boom'')),
            result_isFetching = True, result_status = StatusError \<rparr> ]
       = [ \<lparr> notification_message = ''boom'', notification_type = ''error'',
             messageArgs_default = Some ''boom'' \<rparr> ]"
  using error_notification [of _ "''boom''" 1 _
     "[ \<lparr> result_data = (None :: (unit, unit) InfiniteData option), result_error = None,
            result_isFetching = True, result_status = StatusPending \<rparr>,
          \<lparr> result_data = None, result_error = Some (Structured 1 (Some ''boom'')),
            result_isFetching = False, result_status = StatusError \<rparr>,
          \<lparr> result_data = None, result_error = Some (Structured 1 (Some ''boom'')),
            result_isFetching = False, result_status = StatusError \<rparr>,
          \<lparr> result_data = None, result_error = Some (Structured 1 (Some ''boom'')),
            result_isFetching = True, result_status = StatusError \<rparr> ]"]
  by (simp add: settled_error_def onError_def message_or_http_error_def)

text \<open>
  The claim as it was stated (the \<open>message\<close> whenever the error has one) fails for an error
  object whose \<open>message\<close> is the empty string, as that of \<open>new Error()\<close>: the empty
  string is falsy, and the text is the generic label.
\<close>

theorem error_notification_counterexample:
  "notification_message (onError (Structured 0 (Some ''''))) = ''ra.notification.http_error''
   \<and> notification_message (onError (Structured 0 (Some ''''))) \<noteq> ''''"
  by (simp add: onError_def message_or_http_error_def)

section \<open>Sort and filters\<close>

text \<open>
  C9. \<open>setSort\<close> with any sort sets the page to \<open>1\<close> and the sort to the one given, and
  leaves the filter values and the displayed filters as they were.
\<close>

theorem setSort_resets_page:
  "page (setSort s st) = 1
   \<and> sort_state (setSort s st) = s
   \<and> filterValues (setSort s st) = filterValues st
   \<and> displayedFilters (setSort s st) = displayedFilters st
   \<and> calls (setSort s st) = calls st @ [SetSortState s, SetPage 1]"
  by (simp add: setSort_def setPage_def setSortState_def)

text \<open>
  C8. A call of \<open>setFilters\<close> that is not debounced commits at once: the filter values
  are the given ones without their empty entries (the empty string, an empty container,
  \<open>null\<close> and \<open>undefined\<close>), the displayed filters are the given ones, and the page is
  \<open>1\<close>.
\<close>

theorem setFilters_immediate:
  "filterValues (setFilters wait now filters displayed False st) k
     = (case filters k of
          None \<Rightarrow> None
        | Some v \<Rightarrow>
            if v = JStr [] \<or> v = JArr [] \<or> v = JObj fmempty \<or> v = JNull \<or> v = JUndefined
            then None else Some v)
   \<and> displayedFilters (setFilters wait now filters displayed False st) = displayed
   \<and> page (setFilters wait now filters displayed False st) = 1
   \<and> timer (setFilters wait now filters displayed False st) = timer st
   \<and> calls (setFilters wait now filters displayed False st)
       = calls st @ [SetFilterValues (removeEmpty filters), SetDisplayedFilters displayed,
                     SetPage 1]"
  by (auto simp: setFilters_def commit_filters_def setPage_def setDisplayedFilters_def
      setFilterValues_def removeEmpty_def isEmpty_def split: option.splits jsvalue.splits)

text \<open>
  C6, as amended. On every render, when the default filter of the caller differs (by deep
  structural comparison) from the default observed before, the live filter values are set
  to the new default and the observed default is updated, whatever the user had committed;
  when it does not differ, nothing changes. A debounced commit that is still waiting is
  not cancelled: when its timer fires, the filter values become those of the waiting call.
\<close>

theorem filter_reconciliation:
  "(filter_prop \<noteq> filterRef st \<longrightarrow>
      filterValues (filter_effect filter_prop st) = filter_prop
      \<and> filterRef (filter_effect filter_prop st) = filter_prop
      \<and> timer (filter_effect filter_prop st) = timer st)
   \<and> (filter_prop = filterRef st \<longrightarrow> filter_effect filter_prop st = st)
   \<and> (timer st = Some (filters, displayed, due) \<and> due \<le> now \<longrightarrow>
        filterValues (advance now (filter_effect filter_prop st)) = removeEmpty filters)"
  by (simp add: filter_effect_def setFilterValues_def advance_def commit_filters_def
      setPage_def setDisplayedFilters_def)

theorem filter_reconciliation_witness:
  "filterValues (filter_effect [''status'' \<mapsto> JStr ''active'']
      (setFilters 500 0 [''q'' \<mapsto> JStr ''x''] [''q'' \<mapsto> True] False
        (initial_state 1 25 \<lparr> sort_field = ''id'', sort_order = ''DESC'' \<rparr> Map.empty)))
     = [''status'' \<mapsto> JStr ''active'']
   \<and> filter_effect Map.empty
        (initial_state 1 25 \<lparr> sort_field = ''id'', sort_order = ''DESC'' \<rparr> Map.empty)
       = initial_state 1 25 \<lparr> sort_field = ''id'', sort_order = ''DESC'' \<rparr> Map.empty
   \<and> filterValues (advance 500 (filter_effect [''status'' \<mapsto> JStr ''active'']
      (setFilters 500 0 [''q'' \<mapsto> JStr ''x''] [''q'' \<mapsto> True] True
        (initial_state 1 25 \<lparr> sort_field = ''id'', sort_order = ''DESC'' \<rparr> Map.empty))))
     = removeEmpty [''q'' \<mapsto> JStr ''x'']"
proof -
  let ?init = "initial_state 1 25 \<lparr> sort_field = ''id'', sort_order = ''DESC'' \<rparr> Map.empty"
  let ?edited = "setFilters 500 0 [''q'' \<mapsto> JStr ''x''] [''q'' \<mapsto> True] False ?init"
  let ?waiting = "setFilters 500 0 [''q'' \<mapsto> JStr ''x''] [''q'' \<mapsto> True] True ?init"
  have changed: "[''status'' \<mapsto> JStr ''active''] \<noteq> filterRef ?edited"
    by (simp add: setFilters_def commit_filters_def setPage_def setDisplayedFilters_def
        setFilterValues_def initial_state_def)
  have same: "Map.empty = filterRef ?init"
    by (simp add: initial_state_def)
  have due: "timer ?waiting = Some ([''q'' \<mapsto> JStr ''x''], [''q'' \<mapsto> True], 500)
             \<and> (500 :: nat) \<le> 500"
    by (simp add: setFilters_def debouncedSetFilters_def)
  from filter_reconciliation [of "[''status'' \<mapsto> JStr ''active'']" ?edited] changed
    filter_reconciliation [of Map.empty ?init] same
    filter_reconciliation [where st = ?waiting and filters = "[''q'' \<mapsto> JStr ''x'']"
      and displayed = "[''q'' \<mapsto> True]" and due = 500 and now = 500
      and filter_prop = "[''status'' \<mapsto> JStr ''active'']"] due
  show ?thesis by simp
qed

text \<open>
  The claim as it was stated (the reset overrides an edit in flight) fails for a debounced
  call that is waiting when the default changes: with a window of 500 ms, a debounced
  \<open>setFilters({q: "x"})\<close> at 0 ms and a new default \<open>{status: "active"}\<close> rendered at
  100 ms, the filter values are the new default after that render, and \<open>{q: "x"}\<close> once
  the timer has fired at 500 ms.
\<close>

theorem filter_reconciliation_counterexample:
  "filterValues (run 500
      [(0, SetFilters [''q'' \<mapsto> JStr ''x''] [''q'' \<mapsto> True] True),
       (100, Render [''status'' \<mapsto> JStr ''active''])]
      (initial_state 1 25 \<lparr> sort_field = ''id'', sort_order = ''DESC'' \<rparr> Map.empty))
     = [''status'' \<mapsto> JStr ''active'']
   \<and> filterValues (run 500
      [(0, SetFilters [''q'' \<mapsto> JStr ''x''] [''q'' \<mapsto> True] True),
       (100, Render [''status'' \<mapsto> JStr ''active'']),
       (500, Render [''status'' \<mapsto> JStr ''active''])]
      (initial_state 1 25 \<lparr> sort_field = ''id'', sort_order = ''DESC'' \<rparr> Map.empty))
     ''q'' = Some (JStr ''x'')
   \<and> filterValues (run 500
      [(0, SetFilters [''q'' \<mapsto> JStr ''x''] [''q'' \<mapsto> True] True),
       (100, Render [''status'' \<mapsto> JStr ''active'']),
       (500, Render [''status'' \<mapsto> JStr ''active''])]
      (initial_state 1 25 \<lparr> sort_field = ''id'', sort_order = ''DESC'' \<rparr> Map.empty))
     \<noteq> [''status'' \<mapsto> JStr ''active'']"
proof -
  let ?final = "run 500
      [(0, SetFilters [''q'' \<mapsto> JStr ''x''] [''q'' \<mapsto> True] True),
       (100, Render [''status'' \<mapsto> JStr ''active'']),
       (500, Render [''status'' \<mapsto> JStr ''active''])]
      (initial_state 1 25 \<lparr> sort_field = ''id'', sort_order = ''DESC'' \<rparr> Map.empty)"
  have reset: "filterValues (run 500
      [(0, SetFilters [''q'' \<mapsto> JStr ''x''] [''q'' \<mapsto> True] True),
       (100, Render [''status'' \<mapsto> JStr ''active''])]
      (initial_state 1 25 \<lparr> sort_field = ''id'', sort_order = ''DESC'' \<rparr> Map.empty))
     = [''status'' \<mapsto> JStr ''active'']"
    by (simp add: advance_def setFilters_def debouncedSetFilters_def filter_effect_def
        setFilterValues_def initial_state_def)
  have q: "filterValues ?final ''q'' = Some (JStr ''x'')"
    by (simp add: advance_def setFilters_def debouncedSetFilters_def filter_effect_def
        setFilterValues_def setDisplayedFilters_def setPage_def commit_filters_def
        initial_state_def removeEmpty_def isEmpty_def)
  have "[''status'' \<mapsto> JStr ''active''] ''q'' = None"
    by simp
  with q have "filterValues ?final \<noteq> [''status'' \<mapsto> JStr ''active'']"
    by (metis option.distinct(1))
  with reset q show ?thesis by simp
qed

section \<open>The debounced commit\<close>

lemma run_debounced_calls:
  assumes "cs \<noteq> []"
    and "within_window wait (map fst cs)"
    and "case timer st of None \<Rightarrow> True | Some (_, _, due) \<Rightarrow> fst (hd cs) < due"
  shows "run wait (debounced_calls cs) st
           = st\<lparr> timer := Some (fst (snd (last cs)), snd (snd (last cs)), fst (last cs) + wait) \<rparr>"
  using assms
proof (induction cs arbitrary: st)
  case Nil
  then show ?case by simp
next
  case (Cons c cs)
  obtain t filters displayed where c: "c = (t, filters, displayed)"
    by (cases c)
  have quiet: "advance t st = st"
    using Cons.prems(3) c by (auto simp: advance_def split: option.splits)
  let ?st1 = "st\<lparr> timer := Some (filters, displayed, t + wait) \<rparr>"
  have first: "run wait (debounced_calls (c # cs)) st = run wait (debounced_calls cs) ?st1"
    by (simp add: debounced_calls_def c quiet setFilters_def debouncedSetFilters_def)
  show ?case
  proof (cases cs)
    case Nil
    with first c show ?thesis
      by (simp add: debounced_calls_def)
  next
    case (Cons c' cs')
    have "run wait (debounced_calls cs) ?st1
            = ?st1\<lparr> timer := Some (fst (snd (last cs)), snd (snd (last cs)),
                                   fst (last cs) + wait) \<rparr>"
    proof (rule Cons.IH)
      show "cs \<noteq> []" using Cons by simp
      show "within_window wait (map fst cs)"
        using Cons.prems(2) Cons by simp
      show "case timer ?st1 of None \<Rightarrow> True | Some (_, _, due) \<Rightarrow> fst (hd cs) < due"
        using Cons.prems(2) Cons c by simp
    qed
    with first Cons show ?thesis by simp
  qed
qed

text \<open>
  C7. For debounced calls of \<open>setFilters\<close> that fall within one window, the last at the
  time \<open>t\<close>: no setter is called before the trailing edge \<open>t + wait\<close>; at the trailing
  edge there is exactly one commit, with the arguments of the last call: one update of
  the filter values (sanitized), one of the displayed filters and one reset of the page
  to \<open>1\<close>; and nothing more is committed afterwards.
\<close>

theorem debounced_setFilters_coalesce:
  assumes "cs \<noteq> []"
    and "within_window wait (map fst cs)"
    and "timer st = None"
    and "last cs = (t, filters, displayed)"
  shows
    "calls (run wait (debounced_calls cs) st) = calls st
     \<and> (now < t + wait \<longrightarrow>
          advance now (run wait (debounced_calls cs) st) = run wait (debounced_calls cs) st)
     \<and> (t + wait \<le> now \<longrightarrow>
          calls (advance now (run wait (debounced_calls cs) st))
            = calls st @ [SetFilterValues (removeEmpty filters), SetDisplayedFilters displayed,
                          SetPage 1]
          \<and> filterValues (advance now (run wait (debounced_calls cs) st)) = removeEmpty filters
          \<and> displayedFilters (advance now (run wait (debounced_calls cs) st)) = displayed
          \<and> page (advance now (run wait (debounced_calls cs) st)) = 1
          \<and> advance later (advance now (run wait (debounced_calls cs) st))
              = advance now (run wait (debounced_calls cs) st))"
proof -
  have "run wait (debounced_calls cs) st = st\<lparr> timer := Some (filters, displayed, t + wait) \<rparr>"
    using run_debounced_calls [OF assms(1,2), of st] assms(3,4) by simp
  then show ?thesis
    by (simp add: advance_def commit_filters_def setPage_def setDisplayedFilters_def
        setFilterValues_def)
qed

text \<open>
  Three calls at 0, 100 and 200 ms with a window of 500 ms: one commit at 700 ms, with the
  arguments of the third call; at 699 ms nothing has been committed.
\<close>

theorem debounced_setFilters_coalesce_witness:
  "calls (advance 700 (run 500
      (debounced_calls
        [(0, [''q'' \<mapsto> JStr ''x''], [''q'' \<mapsto> True]),
         (100, [''q'' \<mapsto> JStr ''xy''], [''q'' \<mapsto> True]),
         (200, [''q'' \<mapsto> JStr ''xyz''], [''q'' \<mapsto> True])])
      (initial_state 3 25 \<lparr> sort_field = ''id'', sort_order = ''DESC'' \<rparr> Map.empty)))
     = [SetFilterValues (removeEmpty [''q'' \<mapsto> JStr ''xyz'']),
        SetDisplayedFilters [''q'' \<mapsto> True], SetPage 1]
   \<and> filterValues (advance 700 (run 500
      (debounced_calls
        [(0, [''q'' \<mapsto> JStr ''x''], [''q'' \<mapsto> True]),
         (100, [''q'' \<mapsto> JStr ''xy''], [''q'' \<mapsto> True]),
         (200, [''q'' \<mapsto> JStr ''xyz''], [''q'' \<mapsto> True])])
      (initial_state 3 25 \<lparr> sort_field = ''id'', sort_order = ''DESC'' \<rparr> Map.empty))) ''q''
     = Some (JStr ''xyz'')
   \<and> page (advance 700 (run 500
      (debounced_calls
        [(0, [''q'' \<mapsto> JStr ''x''], [''q'' \<mapsto> True]),
         (100, [''q'' \<mapsto> JStr ''xy''], [''q'' \<mapsto> True]),
         (200, [''q'' \<mapsto> JStr ''xyz''], [''q'' \<mapsto> True])])
      (initial_state 3 25 \<lparr> sort_field = ''id'', sort_order = ''DESC'' \<rparr> Map.empty))) = 1
   \<and> calls (advance 699 (run 500
      (debounced_calls
        [(0, [''q'' \<mapsto> JStr ''x''], [''q'' \<mapsto> True]),
         (100, [''q'' \<mapsto> JStr ''xy''], [''q'' \<mapsto> True]),
         (200, [''q'' \<mapsto> JStr ''xyz''], [''q'' \<mapsto> True])])
      (initial_state 3 25 \<lparr> sort_field = ''id'', sort_order = ''DESC'' \<rparr> Map.empty))) = []"
proof -
  let ?cs = "[(0 :: nat, [''q'' \<mapsto> JStr ''x''], [''q'' \<mapsto> True]),
              (100, [''q'' \<mapsto> JStr ''xy''], [''q'' \<mapsto> True]),
              (200, [''q'' \<mapsto> JStr ''xyz''], [''q'' \<mapsto> True])]"
  let ?st = "initial_state 3 25 \<lparr> sort_field = ''id'', sort_order = ''DESC'' \<rparr> Map.empty"
  have h: "?cs \<noteq> []" "within_window 500 (map fst ?cs)" "timer ?st = None"
    "last ?cs = (200, [''q'' \<mapsto> JStr ''xyz''], [''q'' \<mapsto> True])"
    by (simp_all add: initial_state_def)
  from debounced_setFilters_coalesce [OF h, of 700] debounced_setFilters_coalesce [OF h, of 699]
  show ?thesis
    by (simp add: initial_state_def removeEmpty_def isEmpty_def)
qed

end
